theory Spec2Isabelle
  imports Main
begin

section \<open>The hookify UserPromptSubmit hook\<close>

text \<open>
  The program is the script \<^verbatim>\<open>plugins/hookify/hooks/userpromptsubmit.py\<close>. It
  computes a plugin root, puts it on the module search path, imports two names from the
  plugin's library, and then runs \<^verbatim>\<open>main\<close>: parse the standard input as JSON, load
  the rules of the event \<^verbatim>\<open>prompt\<close>, evaluate them, print the result as JSON and
  leave with status 0.

  The model follows the script statement by statement. What the script receives from
  outside (the environment, its own file name, the search path, the standard input, the
  functions of \<^verbatim>\<open>os.path\<close>, the JSON reader, what the two imports yield, and what
  the standard output does with the text written to it) is a record \<open>world\<close>; what it
  does (the text on the standard output, the calls to the library) is a record \<open>run\<close>.
  Every \<^verbatim>\<open>raise\<close> is a value: \<open>Inl e\<close>, or \<open>Some e\<close> beside the run so far.
\<close>

subsection \<open>Python values\<close>

text \<open>
  A Python \<^verbatim>\<open>str\<close> is a sequence of code points, so it is a list of naturals; the text
  written to the standard output is ASCII (the JSON writer escapes everything else) and
  is a \<open>string\<close>. \<open>ustr\<close> reads an ASCII literal as a Python string.
\<close>

type_synonym pystr = "nat list"

definition ustr :: "string \<Rightarrow> pystr" where
  "ustr s = map of_char s"

text \<open>
  The objects that can reach \<^verbatim>\<open>json.dumps\<close>. A float carries the text that
  \<^verbatim>\<open>json\<close> writes for it (its \<^verbatim>\<open>repr\<close>, or \<^verbatim>\<open>NaN\<close>, \<^verbatim>\<open>Infinity\<close>,
  \<^verbatim>\<open>-Infinity\<close>); \<open>PyObject n\<close> is an object of any other class, named \<open>n\<close>
  (a set, bytes, an instance of a user class). A dict is its items in order.
\<close>

datatype pyobj =
    PyNone
  | PyBool bool
  | PyInt int
  | PyFloat string
  | PyStr pystr
  | PyList "pyobj list"
  | PyTuple "pyobj list"
  | PyDict "(pyobj \<times> pyobj) list"
  | PyObject string

subsection \<open>Exceptions\<close>

text \<open>
  The script tells exceptions apart by class twice: \<^verbatim>\<open>except ImportError\<close> around the
  imports and \<^verbatim>\<open>except Exception\<close> in \<^verbatim>\<open>main\<close>; and the interpreter treats
  \<^verbatim>\<open>SystemExit\<close> apart from every other exception that reaches the top of the script.
  Four kinds of class are therefore kept apart: \<^verbatim>\<open>ImportError\<close> and its subclasses;
  every other subclass of \<^verbatim>\<open>Exception\<close>; \<^verbatim>\<open>SystemExit\<close>, with the exit status that
  its code gives the process (0 for \<^verbatim>\<open>None\<close>, the low byte of an integer, 1 for any
  other object); and the other classes that derive from \<^verbatim>\<open>BaseException\<close> only
  (\<^verbatim>\<open>KeyboardInterrupt\<close>, \<^verbatim>\<open>GeneratorExit\<close>). An exception carries the text
  \<^verbatim>\<open>str(e)\<close> gives for it.
\<close>

datatype exc_class =
  ImportError_class | Exception_class | SystemExit_class nat | BaseException_class

datatype pyexc = PyExc (exc_class: exc_class) (exc_str: pystr)

definition isinstance_ImportError :: "pyexc \<Rightarrow> bool" where
  "isinstance_ImportError e = (exc_class e = ImportError_class)"

definition isinstance_Exception :: "pyexc \<Rightarrow> bool" where
  "isinstance_Exception e = (exc_class e = ImportError_class \<or> exc_class e = Exception_class)"

subsection \<open>The JSON writer: \<^verbatim>\<open>json.dumps\<close> with its default arguments\<close>

text \<open>
  \<^verbatim>\<open>json.dumps(obj)\<close> as the script calls it: \<^verbatim>\<open>ensure_ascii\<close> is on, the
  separators are \<^verbatim>\<open>", "\<close> and \<^verbatim>\<open>": "\<close>, keys are not skipped or sorted. It raises
  \<^verbatim>\<open>TypeError\<close> on an object it cannot write and on a key that is not a str, int,
  float, bool or None.
\<close>

fun nat_digits :: "nat \<Rightarrow> string" where
  "nat_digits n =
     (if n < 10 then [''0123456789'' ! n]
      else nat_digits (n div 10) @ [''0123456789'' ! (n mod 10)])"

definition int_repr :: "int \<Rightarrow> string" where
  "int_repr i = (if i < 0 then CHR ''-'' # nat_digits (nat (- i)) else nat_digits (nat i))"

definition hex4 :: "nat \<Rightarrow> string" where
  "hex4 n =
     [''0123456789abcdef'' ! (n div 4096 mod 16), ''0123456789abcdef'' ! (n div 256 mod 16),
      ''0123456789abcdef'' ! (n div 16 mod 16), ''0123456789abcdef'' ! (n mod 16)]"

definition u_escape :: "nat \<Rightarrow> string" where
  "u_escape n = CHR 0x5C # CHR ''u'' # hex4 n"

text \<open>
  One code point of a string literal: backslash, double quote and the five control
  characters with a short form; printable ASCII as it is; everything else as
  \<^verbatim>\<open>\uXXXX\<close>, a code point beyond the basic plane as a surrogate pair.
\<close>

definition escape_char :: "nat \<Rightarrow> string" where
  "escape_char n =
     (if n = 0x5C then [CHR 0x5C, CHR 0x5C]
      else if n = 0x22 then [CHR 0x5C, CHR 0x22]
      else if n = 0x08 then [CHR 0x5C, CHR ''b'']
      else if n = 0x0C then [CHR 0x5C, CHR ''f'']
      else if n = 0x0A then [CHR 0x5C, CHR ''n'']
      else if n = 0x0D then [CHR 0x5C, CHR ''r'']
      else if n = 0x09 then [CHR 0x5C, CHR ''t'']
      else if 0x20 \<le> n \<and> n \<le> 0x7E then [char_of n]
      else if n < 0x10000 then u_escape n
      else u_escape (0xD800 + (n - 0x10000) div 1024 mod 1024)
           @ u_escape (0xDC00 + (n - 0x10000) mod 1024))"

definition escape_str :: "pystr \<Rightarrow> string" where
  "escape_str s = concat (map escape_char s)"

definition encode_basestring_ascii :: "pystr \<Rightarrow> string" where
  "encode_basestring_ascii s = CHR 0x22 # escape_str s @ [CHR 0x22]"

fun join_str :: "string \<Rightarrow> string list \<Rightarrow> string" where
  "join_str sep [] = []"
| "join_str sep [t] = t"
| "join_str sep (t # u # ts) = t @ sep @ join_str sep (u # ts)"

definition class_name :: "pyobj \<Rightarrow> string" where
  "class_name v =
     (case v of
        PyNone \<Rightarrow> ''NoneType'' | PyBool _ \<Rightarrow> ''bool'' | PyInt _ \<Rightarrow> ''int''
      | PyFloat _ \<Rightarrow> ''float'' | PyStr _ \<Rightarrow> ''str'' | PyList _ \<Rightarrow> ''list''
      | PyTuple _ \<Rightarrow> ''tuple'' | PyDict _ \<Rightarrow> ''dict'' | PyObject n \<Rightarrow> n)"

definition TypeError :: "string \<Rightarrow> pyexc" where
  "TypeError msg = PyExc Exception_class (ustr msg)"

text \<open>The text of a dict key, or the \<^verbatim>\<open>TypeError\<close> for a key of another class.\<close>

definition dict_key :: "pyobj \<Rightarrow> pyexc + pystr" where
  "dict_key k =
     (case k of
        PyStr s \<Rightarrow> Inr s
      | PyFloat r \<Rightarrow> Inr (ustr r)
      | PyBool b \<Rightarrow> Inr (ustr (if b then ''true'' else ''false''))
      | PyNone \<Rightarrow> Inr (ustr ''null'')
      | PyInt i \<Rightarrow> Inr (ustr (int_repr i))
      | _ \<Rightarrow> Inl (TypeError (''keys must be str, int, float, bool or None, not '' @ class_name k)))"

fun json_dumps :: "pyobj \<Rightarrow> pyexc + string"
  and dumps_items :: "pyobj list \<Rightarrow> pyexc + string list"
  and dumps_pairs :: "(pyobj \<times> pyobj) list \<Rightarrow> pyexc + string list"
where
  "json_dumps PyNone = Inr ''null''"
| "json_dumps (PyBool b) = Inr (if b then ''true'' else ''false'')"
| "json_dumps (PyInt i) = Inr (int_repr i)"
| "json_dumps (PyFloat r) = Inr r"
| "json_dumps (PyStr s) = Inr (encode_basestring_ascii s)"
| "json_dumps (PyList xs) =
     (case dumps_items xs of Inl e \<Rightarrow> Inl e | Inr ts \<Rightarrow> Inr (''['' @ join_str '', '' ts @ '']''))"
| "json_dumps (PyTuple xs) =
     (case dumps_items xs of Inl e \<Rightarrow> Inl e | Inr ts \<Rightarrow> Inr (''['' @ join_str '', '' ts @ '']''))"
| "json_dumps (PyDict kvs) =
     (case dumps_pairs kvs of Inl e \<Rightarrow> Inl e | Inr ts \<Rightarrow> Inr (''{'' @ join_str '', '' ts @ ''}''))"
| "json_dumps (PyObject n) =
     Inl (TypeError (''Object of type '' @ n @ '' is not JSON serializable''))"
| "dumps_items [] = Inr []"
| "dumps_items (x # xs) =
     (case json_dumps x of
        Inl e \<Rightarrow> Inl e
      | Inr t \<Rightarrow> (case dumps_items xs of Inl e \<Rightarrow> Inl e | Inr ts \<Rightarrow> Inr (t # ts)))"
| "dumps_pairs [] = Inr []"
| "dumps_pairs (kv # kvs) =
     (case dict_key (fst kv) of
        Inl e \<Rightarrow> Inl e
      | Inr k \<Rightarrow>
          (case json_dumps (snd kv) of
             Inl e \<Rightarrow> Inl e
           | Inr t \<Rightarrow>
               (case dumps_pairs kvs of
                  Inl e \<Rightarrow> Inl e
                | Inr ts \<Rightarrow> Inr ((encode_basestring_ascii k @ '': '' @ t) # ts))))"

subsection \<open>What the script receives, and what a run leaves behind\<close>

text \<open>
  The library behind the two imports is not part of the script. \<^verbatim>\<open>load_rules\<close> takes
  the event name and returns a rule set of some type \<open>'r\<close>, or raises. The class
  \<^verbatim>\<open>RuleEngine\<close> is called with no argument and returns an engine, or raises; the
  engine is its method \<^verbatim>\<open>evaluate_rules\<close>, which takes the rule set and the parsed
  input and returns an object, or raises.
\<close>

type_synonym 'r load_rules = "pystr \<Rightarrow> pyexc + 'r"

type_synonym 'r evaluate_rules = "'r \<Rightarrow> pyobj \<Rightarrow> pyexc + pyobj"

type_synonym 'r RuleEngine = "pyexc + 'r evaluate_rules"

text \<open>
  \<open>environ\<close> is \<^verbatim>\<open>os.environ\<close>, \<open>script_file\<close> is \<^verbatim>\<open>__file__\<close>, \<open>sys_path\<close> is
  \<^verbatim>\<open>sys.path\<close> when the script starts, \<open>stdin\<close> is the text on the standard input.
  \<open>abspath\<close> and \<open>dirname\<close> are the functions of \<^verbatim>\<open>os.path\<close> on this platform.
  \<open>json_load\<close> is \<^verbatim>\<open>json.load\<close> on the text of the stream: the parsed object, or the
  text of the \<^verbatim>\<open>ValueError\<close> it raises on a document that is not valid JSON.
  Each import statement resolves its module along the search path it finds, and gives
  the imported name or raises.

  The standard output is a device of its own. \<open>stdout_write w written t\<close> is what
  becomes of the call \<^verbatim>\<open>sys.stdout.write(t)\<close> when the stream has taken \<open>written\<close> so
  far: the part of \<open>t\<close> that the stream takes, and the exception that the call raises, if
  it raises (a \<^verbatim>\<open>BrokenPipeError\<close> on a pipe whose reader is gone, say).
  \<open>flush_fails w written\<close> says that the flush of the standard streams at interpreter
  shutdown fails when the standard output has taken \<open>written\<close>, which happens when text
  that the stream holds in its buffer can no longer be delivered.
\<close>

record 'r world =
  environ :: "string \<rightharpoonup> string"
  script_file :: string
  sys_path :: "string list"
  stdin :: string
  abspath :: "string \<Rightarrow> string"
  dirname :: "string \<Rightarrow> string"
  json_load :: "string \<Rightarrow> pystr + pyobj"
  import_load_rules :: "string list \<Rightarrow> pyexc + 'r load_rules"
  import_RuleEngine :: "string list \<Rightarrow> pyexc + 'r RuleEngine"
  stdout_write :: "string \<Rightarrow> string \<Rightarrow> string \<times> pyexc option"
  flush_fails :: "string \<Rightarrow> bool"

datatype 'r call =
    Call_load_rules pystr
  | Call_RuleEngine
  | Call_evaluate_rules 'r pyobj

text \<open>
  In a run, \<open>stdout\<close> is the text that the standard output has taken and \<open>calls\<close> are
  the calls made to the library, in order.
\<close>

record 'r run =
  stdout :: string
  calls :: "'r call list"

text \<open>
  A process ends with the status \<open>n\<close> and no traceback (\<open>Exit n\<close>), or with an exception
  that left the script uncaught (\<open>Uncaught e\<close>: a traceback and a status that is not 0).
\<close>

datatype ending = Exit nat | Uncaught pyexc

definition run0 :: "'r run" where
  "run0 = \<lparr>stdout = [], calls = []\<rparr>"

text \<open>
  \<^verbatim>\<open>sys.stdout.write(t)\<close>: the exception raised, if any, and the run with what the
  stream took of \<open>t\<close>.
\<close>

definition sys_stdout_write :: "'r world \<Rightarrow> string \<Rightarrow> 'r run \<Rightarrow> pyexc option \<times> 'r run" where
  "sys_stdout_write w t r =
     (snd (stdout_write w (stdout r) t),
      r\<lparr>stdout := stdout r @ fst (stdout_write w (stdout r) t)\<rparr>)"

text \<open>
  \<^verbatim>\<open>print(text, file=sys.stdout)\<close> writes the text and then the line feed, in two
  calls to \<^verbatim>\<open>sys.stdout.write\<close>. When the first raises, the second is not made.
\<close>

definition py_print :: "'r world \<Rightarrow> string \<Rightarrow> 'r run \<Rightarrow> pyexc option \<times> 'r run" where
  "py_print w t r =
     (case sys_stdout_write w t r of
        (Some e, r1) \<Rightarrow> (Some e, r1)
      | (None, r1) \<Rightarrow> sys_stdout_write w [CHR 0x0A] r1)"

text \<open>\<^verbatim>\<open>sys.exit(n)\<close> raises \<^verbatim>\<open>SystemExit(n)\<close>, whose text is the number.\<close>

definition sys_exit :: "nat \<Rightarrow> pyexc" where
  "sys_exit n = PyExc (SystemExit_class n) (ustr (nat_digits n))"

definition called :: "'r call \<Rightarrow> 'r run \<Rightarrow> 'r run" where
  "called c r = r\<lparr>calls := calls r @ [c]\<rparr>"

subsection \<open>Module level: the plugin root and the imports\<close>

text \<open>
  \<^verbatim>\<open>PLUGIN_ROOT = os.environ.get('CLAUDE_PLUGIN_ROOT')\<close>, replaced when it is falsy
  (\<^verbatim>\<open>None\<close> or the empty string) by
  \<^verbatim>\<open>os.path.dirname(os.path.dirname(os.path.abspath(__file__)))\<close>.
\<close>

definition PLUGIN_ROOT :: "'r world \<Rightarrow> string" where
  "PLUGIN_ROOT w =
     (case environ w ''CLAUDE_PLUGIN_ROOT'' of
        None \<Rightarrow> dirname w (dirname w (abspath w (script_file w)))
      | Some v \<Rightarrow>
          if v = [] then dirname w (dirname w (abspath w (script_file w))) else v)"

text \<open>\<^verbatim>\<open>if PLUGIN_ROOT not in sys.path: sys.path.insert(0, PLUGIN_ROOT)\<close>\<close>

definition sys_path_after :: "'r world \<Rightarrow> string list" where
  "sys_path_after w =
     (if PLUGIN_ROOT w \<in> set (sys_path w) then sys_path w else PLUGIN_ROOT w # sys_path w)"

text \<open>The body of the \<^verbatim>\<open>try\<close> around the two imports.\<close>

definition try_imports :: "'r world \<Rightarrow> pyexc + ('r load_rules \<times> 'r RuleEngine)" where
  "try_imports w =
     (case import_load_rules w (sys_path_after w) of
        Inl e \<Rightarrow> Inl e
      | Inr load_rules \<Rightarrow>
          (case import_RuleEngine w (sys_path_after w) of
             Inl e \<Rightarrow> Inl e
           | Inr cls \<Rightarrow> Inr (load_rules, cls)))"

subsection \<open>\<^verbatim>\<open>main\<close>\<close>

text \<open>
  The \<^verbatim>\<open>try\<close> block of \<^verbatim>\<open>main\<close>, statement by statement. It gives the exception
  it raised, if any, and the run so far.
\<close>

definition try_block ::
  "'r world \<Rightarrow> 'r load_rules \<Rightarrow> 'r RuleEngine \<Rightarrow> 'r run \<Rightarrow> pyexc option \<times> 'r run" where
  "try_block w load_rules cls r =
     (case json_load w (stdin w) of
        Inl msg \<Rightarrow> (Some (PyExc Exception_class msg), r)
      | Inr input_data \<Rightarrow>
          (let r1 = called (Call_load_rules (ustr ''prompt'')) r in
           case load_rules (ustr ''prompt'') of
             Inl e \<Rightarrow> (Some e, r1)
           | Inr rules \<Rightarrow>
               (let r2 = called Call_RuleEngine r1 in
                case cls of
                  Inl e \<Rightarrow> (Some e, r2)
                | Inr engine \<Rightarrow>
                    (let r3 = called (Call_evaluate_rules rules input_data) r2 in
                     case engine rules input_data of
                       Inl e \<Rightarrow> (Some e, r3)
                     | Inr result \<Rightarrow>
                         (case json_dumps result of
                            Inl e \<Rightarrow> (Some e, r3)
                          | Inr t \<Rightarrow> py_print w t r3)))))"

text \<open>\<^verbatim>\<open>error_output = {"systemMessage": f"Hookify error: {str(e)}"}\<close>\<close>

definition error_output :: "pyexc \<Rightarrow> pyobj" where
  "error_output e =
     PyDict [(PyStr (ustr ''systemMessage''), PyStr (ustr ''Hookify error: '' @ exc_str e))]"

text \<open>
  \<^verbatim>\<open>except Exception as e\<close>: an instance of \<^verbatim>\<open>Exception\<close> is caught and reported on
  the standard output; any other exception stays pending. An exception raised inside the
  handler, by the writer or by \<^verbatim>\<open>print\<close>, is pending in its turn.
\<close>

definition except_block ::
  "'r world \<Rightarrow> pyexc option \<times> 'r run \<Rightarrow> pyexc option \<times> 'r run" where
  "except_block w pr =
     (case fst pr of
        None \<Rightarrow> pr
      | Some e \<Rightarrow>
          if isinstance_Exception e then
            (case json_dumps (error_output e) of
               Inl e' \<Rightarrow> (Some e', snd pr)
             | Inr t \<Rightarrow> py_print w t (snd pr))
          else pr)"

text \<open>
  \<^verbatim>\<open>finally: sys.exit(0)\<close>: the \<^verbatim>\<open>SystemExit\<close> raised here replaces whatever
  exception is pending. \<^verbatim>\<open>main\<close> therefore never returns: it always leaves with an
  exception, given here with the run so far.
\<close>

definition finally_block :: "pyexc option \<times> 'r run \<Rightarrow> pyexc \<times> 'r run" where
  "finally_block pr = (sys_exit 0, snd pr)"

definition main :: "'r world \<Rightarrow> 'r load_rules \<Rightarrow> 'r RuleEngine \<Rightarrow> 'r run \<Rightarrow> pyexc \<times> 'r run" where
  "main w load_rules cls r = finally_block (except_block w (try_block w load_rules cls r))"

subsection \<open>The whole script\<close>

text \<open>
  The statements of the script, up to the exception that leaves it. An
  \<^verbatim>\<open>ImportError\<close> from either import is answered with \<^verbatim>\<open>print(json.dumps({}))\<close> and
  \<^verbatim>\<open>sys.exit(0)\<close>; that handler has no \<^verbatim>\<open>finally\<close>, so what the writer or
  \<^verbatim>\<open>print\<close> raise there leaves the script. An exception of another class is not caught
  by the handler. After the imports the script calls \<^verbatim>\<open>main()\<close>.
\<close>

definition script :: "'r world \<Rightarrow> pyexc \<times> 'r run" where
  "script w =
     (case try_imports w of
        Inl e \<Rightarrow>
          if isinstance_ImportError e then
            (case json_dumps (PyDict []) of
               Inl e' \<Rightarrow> (e', run0)
             | Inr t \<Rightarrow>
                 (case py_print w t run0 of
                    (Some e', r) \<Rightarrow> (e', r)
                  | (None, r) \<Rightarrow> (sys_exit 0, r)))
          else (e, run0)
      | Inr imported \<Rightarrow> main w (fst imported) (snd imported) run0)"

text \<open>
  What the interpreter does with the exception that reaches the top of the script: a
  \<^verbatim>\<open>SystemExit\<close> ends the process with the status of its code; any other exception is
  reported with a traceback and leaves the process.
\<close>

definition top_level :: "pyexc \<Rightarrow> ending" where
  "top_level e = (case exc_class e of SystemExit_class n \<Rightarrow> Exit n | _ \<Rightarrow> Uncaught e)"

text \<open>
  At shutdown the interpreter flushes the standard streams. When the flush fails, the
  exit status becomes 120, whatever status the script asked for.
\<close>

definition shutdown :: "'r world \<Rightarrow> ending \<times> 'r run \<Rightarrow> ending \<times> 'r run" where
  "shutdown w er =
     (case fst er of
        Exit n \<Rightarrow> (if flush_fails w (stdout (snd er)) then Exit 120 else Exit n, snd er)
      | Uncaught e \<Rightarrow> er)"

text \<open>The process: the script, the exception that leaves it, and the shutdown.\<close>

definition hook :: "'r world \<Rightarrow> ending \<times> 'r run" where
  "hook w = shutdown w (top_level (fst (script w)), snd (script w))"

text \<open>
  A standard output that works: every call of \<^verbatim>\<open>write\<close> takes the whole text and
  returns, and the flush at shutdown succeeds.
\<close>

definition stdout_works :: "'r world \<Rightarrow> bool" where
  "stdout_works w =
     (\<forall>written t. stdout_write w written t = (t, None) \<and> \<not> flush_fails w written)"

subsection \<open>\<^verbatim>\<open>os.path\<close> on POSIX, and sample worlds\<close>

text \<open>
  The theorems below hold for any \<open>abspath\<close> and \<open>dirname\<close>. To run the model on
  concrete paths, here are the two functions as \<^verbatim>\<open>posixpath\<close> defines them:
  \<open>posix_dirname\<close> cuts after the last slash and strips the trailing slashes of what is
  left unless it is slashes only; \<open>posix_abspath cwd\<close> joins a relative path to the
  working directory and normalises the result (\<open>posix_normpath\<close>).
\<close>

definition posix_dirname :: "string \<Rightarrow> string" where
  "posix_dirname p =
     (let head = rev (dropWhile (\<lambda>c. c \<noteq> CHR ''/'') (rev p)) in
      if head \<noteq> [] \<and> \<not> list_all (\<lambda>c. c = CHR ''/'') head
      then rev (dropWhile (\<lambda>c. c = CHR ''/'') (rev head)) else head)"

fun split_sep :: "string \<Rightarrow> string list" where
  "split_sep [] = [[]]"
| "split_sep (c # cs) =
     (if c = CHR ''/'' then [] # split_sep cs
      else (case split_sep cs of [] \<Rightarrow> [[c]] | part # parts \<Rightarrow> (c # part) # parts))"

fun norm_comps :: "bool \<Rightarrow> string list \<Rightarrow> string list \<Rightarrow> string list" where
  "norm_comps initial_slashes [] new_comps = new_comps"
| "norm_comps initial_slashes (part # parts) new_comps =
     (if part = [] \<or> part = ''.'' then norm_comps initial_slashes parts new_comps
      else if part \<noteq> ''..'' \<or> (\<not> initial_slashes \<and> new_comps = [])
              \<or> (new_comps \<noteq> [] \<and> last new_comps = ''..'')
      then norm_comps initial_slashes parts (new_comps @ [part])
      else if new_comps \<noteq> [] then norm_comps initial_slashes parts (butlast new_comps)
      else norm_comps initial_slashes parts new_comps)"

fun join_sep :: "string list \<Rightarrow> string" where
  "join_sep [] = []"
| "join_sep [t] = t"
| "join_sep (t # u # ts) = t @ CHR ''/'' # join_sep (u # ts)"

definition posix_normpath :: "string \<Rightarrow> string" where
  "posix_normpath path =
     (if path = [] then ''.''
      else
        (let initial_slashes =
               (if take 1 path = ''/'' then
                  (if take 2 path = ''//'' \<and> take 3 path \<noteq> ''///'' then 2 else 1)
                else (0::nat));
             parts = norm_comps (initial_slashes \<noteq> 0) (split_sep path) [];
             joined = replicate initial_slashes (CHR ''/'') @ join_sep parts
         in if joined = [] then ''.'' else joined))"

definition posix_join :: "string \<Rightarrow> string \<Rightarrow> string" where
  "posix_join a b =
     (if take 1 b = ''/'' then b
      else if a = [] \<or> last a = CHR ''/'' then a @ b
      else a @ CHR ''/'' # b)"

definition posix_abspath :: "string \<Rightarrow> string \<Rightarrow> string" where
  "posix_abspath cwd path =
     posix_normpath (if take 1 path = ''/'' then path else posix_join cwd path)"

text \<open>
  A sample reader for the standard input: the document of a prompt submission parses,
  any other text is refused with the message \<^verbatim>\<open>json\<close> gives for a document that
  does not start with a value.
\<close>

definition sample_json_load :: "string \<Rightarrow> pystr + pyobj" where
  \<open>sample_json_load s =
     (if s = ''{"prompt": "hello"}''
      then Inr (PyDict [(PyStr (ustr ''prompt''), PyStr (ustr ''hello''))])
      else Inl (ustr ''Expecting value: line 1 column 1 (char 0)''))\<close>

text \<open>
  A sample library, installed under \<^verbatim>\<open>/opt/hookify\<close> and \<^verbatim>\<open>/srv/hookify\<close>: an
  import finds it when one of the two directories is on the search path, and raises
  \<^verbatim>\<open>ModuleNotFoundError\<close> (an \<^verbatim>\<open>ImportError\<close>) otherwise.
\<close>

definition sample_import :: "'a \<Rightarrow> string list \<Rightarrow> pyexc + 'a" where
  "sample_import x path =
     (if ''/opt/hookify'' \<in> set path \<or> ''/srv/hookify'' \<in> set path then Inr x
      else Inl (PyExc ImportError_class (ustr ''No module named core'')))"

text \<open>
  A sample world: the script is \<^verbatim>\<open>/opt/hookify/hooks/userpromptsubmit.py\<close>, started
  in \<^verbatim>\<open>/home/user\<close>, with a standard output that works; the value of
  \<^verbatim>\<open>CLAUDE_PLUGIN_ROOT\<close>, the standard input and what the two imports do are left
  open. A rule set is the list of the events it was loaded for.
\<close>

definition sample_world ::
  "string option \<Rightarrow> string \<Rightarrow> (string list \<Rightarrow> pyexc + pystr list load_rules)
     \<Rightarrow> (string list \<Rightarrow> pyexc + pystr list RuleEngine) \<Rightarrow> pystr list world" where
  "sample_world root input imp1 imp2 =
     \<lparr>environ = (\<lambda>k. if k = ''CLAUDE_PLUGIN_ROOT'' then root else None),
      script_file = ''/opt/hookify/hooks/userpromptsubmit.py'',
      sys_path = [''/usr/lib/python3''],
      stdin = input,
      abspath = posix_abspath ''/home/user'',
      dirname = posix_dirname,
      json_load = sample_json_load,
      import_load_rules = imp1,
      import_RuleEngine = imp2,
      stdout_write = (\<lambda>written t. (t, None)),
      flush_fails = (\<lambda>written. False)\<rparr>"

definition sample_load_rules :: "pystr list load_rules" where
  "sample_load_rules event = Inr [event]"

definition blocking_engine :: "pystr list evaluate_rules" where
  "blocking_engine rules input_data =
     Inr (PyDict [(PyStr (ustr ''systemMessage''), PyStr (ustr ''blocked: dangerous command''))])"


text \<open>
  Two ways in which a standard output fails, as a pipe does whose reader is gone. An
  unbuffered stream takes nothing and raises \<^verbatim>\<open>BrokenPipeError\<close> (a subclass of
  \<^verbatim>\<open>OSError\<close>, hence of \<^verbatim>\<open>Exception\<close>) at every write. A buffered stream takes
  every write, and cannot deliver what it holds when it is flushed at shutdown.
\<close>

definition BrokenPipeError :: pyexc where
  "BrokenPipeError = PyExc Exception_class (ustr ''[Errno 32] Broken pipe'')"

definition unbuffered_broken_pipe :: "'r world \<Rightarrow> 'r world" where
  "unbuffered_broken_pipe w = w\<lparr>stdout_write := (\<lambda>written t. ([], Some BrokenPipeError))\<rparr>"

definition buffered_broken_pipe :: "'r world \<Rightarrow> 'r world" where
  "buffered_broken_pipe w = w\<lparr>flush_fails := (\<lambda>written. written \<noteq> [])\<rparr>"

section \<open>Lemmas\<close>

subsection \<open>The JSON writer on the documents the script builds itself\<close>

lemma escape_str_append: "escape_str (a @ b) = escape_str a @ escape_str b"
  by (simp add: escape_str_def)

lemma escape_prefix: "escape_str (ustr ''Hookify error: '') = ''Hookify error: ''"
  by code_simp

lemma encode_key: \<open>encode_basestring_ascii (ustr ''systemMessage'') = ''"systemMessage"''\<close>
  by code_simp

lemma dumps_empty_dict: "json_dumps (PyDict []) = Inr ''{}''"
  by simp

lemma dumps_system_message:
  \<open>json_dumps (PyDict [(PyStr (ustr ''systemMessage''), PyStr v)]) =
     Inr (''{"systemMessage": "'' @ escape_str v @ ''"}'')\<close>
  by (simp add: dict_key_def encode_key) (simp add: encode_basestring_ascii_def)

lemma dumps_error_output:
  \<open>json_dumps (error_output e) =
     Inr (''{"systemMessage": "Hookify error: '' @ escape_str (exc_str e) @ ''"}'')\<close>
  by (simp only: error_output_def dumps_system_message escape_str_append escape_prefix) simp

subsection \<open>Printing\<close>

lemma py_print_works:
  "stdout_works w \<Longrightarrow> py_print w t r = (None, r\<lparr>stdout := stdout r @ t @ [CHR 0x0A]\<rparr>)"
  by (simp add: py_print_def sys_stdout_write_def stdout_works_def)

lemma calls_py_print: "calls (snd (py_print w t r)) = calls r"
  by (simp add: py_print_def sys_stdout_write_def split: option.splits)

lemma py_print_cong: "stdout_write w' = stdout_write w \<Longrightarrow> py_print w' t r = py_print w t r"
  by (simp add: py_print_def sys_stdout_write_def split: option.splits)

subsection \<open>The three blocks of \<^verbatim>\<open>main\<close>\<close>

lemma fst_main: "fst (main w load_rules cls r) = sys_exit 0"
  by (simp add: main_def finally_block_def)

lemma main_completed:
  "try_block w load_rules cls r = (None, r') \<Longrightarrow> main w load_rules cls r = (sys_exit 0, r')"
  by (simp add: main_def finally_block_def except_block_def)

lemma main_caught:
  \<open>try_block w load_rules cls r = (Some e, r') \<Longrightarrow> isinstance_Exception e \<Longrightarrow>
   main w load_rules cls r =
     (sys_exit 0,
      snd (py_print w (''{"systemMessage": "Hookify error: '' @ escape_str (exc_str e) @ ''"}'') r'))\<close>
  by (simp add: main_def finally_block_def except_block_def dumps_error_output)


lemma try_block_bad_json:
  "json_load w (stdin w) = Inl msg \<Longrightarrow>
   try_block w load_rules cls r = (Some (PyExc Exception_class msg), r)"
  by (simp add: try_block_def)


lemma try_block_RuleEngine_raises:
  "json_load w (stdin w) = Inr d \<Longrightarrow> load_rules (ustr ''prompt'') = Inr rules \<Longrightarrow>
   try_block w load_rules (Inl e) r =
     (Some e, called Call_RuleEngine (called (Call_load_rules (ustr ''prompt'')) r))"
  by (simp add: try_block_def)


lemma try_block_dumps_raises:
  "json_load w (stdin w) = Inr d \<Longrightarrow> load_rules (ustr ''prompt'') = Inr rules \<Longrightarrow>
   engine rules d = Inr result \<Longrightarrow> json_dumps result = Inl e \<Longrightarrow>
   try_block w load_rules (Inr engine) r =
     (Some e, called (Call_evaluate_rules rules d)
        (called Call_RuleEngine (called (Call_load_rules (ustr ''prompt'')) r)))"
  by (simp add: try_block_def)

lemma try_block_prints:
  "stdout_works w \<Longrightarrow>
   json_load w (stdin w) = Inr d \<Longrightarrow> load_rules (ustr ''prompt'') = Inr rules \<Longrightarrow>
   engine rules d = Inr result \<Longrightarrow> json_dumps result = Inr doc \<Longrightarrow>
   try_block w load_rules (Inr engine) r =
     (None, (called (Call_evaluate_rules rules d)
        (called Call_RuleEngine (called (Call_load_rules (ustr ''prompt'')) r)))
          \<lparr>stdout := stdout r @ doc @ [CHR 0x0A]\<rparr>)"
  by (simp add: try_block_def py_print_works called_def)

lemma stdout_called: "stdout (called c r) = stdout r"
  by (simp add: called_def)

lemma calls_called: "calls (called c r) = calls r @ [c]"
  by (simp add: called_def)

lemma stdout_run0: "stdout run0 = []"
  by (simp add: run0_def)

lemma calls_run0: "calls run0 = []"
  by (simp add: run0_def)

lemma try_block_raised_stdout:
  "stdout_works w \<Longrightarrow> fst (try_block w load_rules cls r) = Some e \<Longrightarrow>
   stdout (snd (try_block w load_rules cls r)) = stdout r"
  by (auto simp add: try_block_def Let_def stdout_called py_print_works split: sum.splits)

lemma except_block_calls: "calls (snd (except_block w pr)) = calls (snd pr)"
  by (simp add: except_block_def calls_py_print split: option.splits sum.splits)

lemma try_block_cong:
  "json_load w' = json_load w \<Longrightarrow> stdin w' = stdin w \<Longrightarrow> stdout_write w' = stdout_write w \<Longrightarrow>
   try_block w' load_rules cls r = try_block w load_rules cls r"
  by (simp add: try_block_def Let_def py_print_cong [of w' w] cong: sum.case_cong)

lemma main_cong:
  "json_load w' = json_load w \<Longrightarrow> stdin w' = stdin w \<Longrightarrow> stdout_write w' = stdout_write w \<Longrightarrow>
   main w' load_rules cls r = main w load_rules cls r"
  by (simp add: main_def except_block_def try_block_cong [of w' w] py_print_cong [of w' w]
      split: option.splits sum.splits)

subsection \<open>The script as a whole\<close>

lemma script_imported:
  "try_imports w = Inr imp \<Longrightarrow> script w = main w (fst imp) (snd imp) run0"
  by (simp add: script_def)

lemma script_import_error:
  "try_imports w = Inl e \<Longrightarrow> isinstance_ImportError e \<Longrightarrow>
   script w =
     (case py_print w ''{}'' run0 of (Some e', r) \<Rightarrow> (e', r) | (None, r) \<Rightarrow> (sys_exit 0, r))"
  by (simp add: script_def)

lemma script_import_uncaught:
  "try_imports w = Inl e \<Longrightarrow> \<not> isinstance_ImportError e \<Longrightarrow> script w = (e, run0)"
  by (simp add: script_def)

lemma top_level_sys_exit: "top_level (sys_exit n) = Exit n"
  by (simp add: top_level_def sys_exit_def)

lemma snd_hook: "snd (hook w) = snd (script w)"
  by (simp add: hook_def shutdown_def split: ending.splits)

lemma fst_hook_sys_exit:
  "fst (script w) = sys_exit n \<Longrightarrow>
   fst (hook w) = (if flush_fails w (stdout (snd (script w))) then Exit 120 else Exit n)"
  by (simp add: hook_def shutdown_def top_level_sys_exit)

lemma fst_hook_uncaught:
  "top_level (fst (script w)) = Uncaught e \<Longrightarrow> fst (hook w) = Uncaught e"
  by (simp add: hook_def shutdown_def)

lemma flush_works: "stdout_works w \<Longrightarrow> \<not> flush_fails w written"
  by (simp add: stdout_works_def)

text \<open>With the imports done and a standard output that works, the process is \<^verbatim>\<open>main\<close>.\<close>

lemma hook_imported:
  "try_imports w = Inr imp \<Longrightarrow> stdout_works w \<Longrightarrow>
   hook w = (Exit 0, snd (main w (fst imp) (snd imp) run0))"
  by (simp add: prod_eq_iff snd_hook script_imported
      fst_hook_sys_exit [of w 0] fst_main flush_works)

lemma hook_import_error:
  "try_imports w = Inl e \<Longrightarrow> isinstance_ImportError e \<Longrightarrow> stdout_works w \<Longrightarrow>
   hook w = (Exit 0, run0\<lparr>stdout := ''{}'' @ [CHR 0x0A]\<rparr>)"
  by (simp add: prod_eq_iff snd_hook script_import_error py_print_works
      fst_hook_sys_exit [of w 0] flush_works stdout_run0)

text \<open>
  The plugin root reaches the rest of the script through the search path of the imports
  only: two worlds with the same imported names, the same reader, the same standard
  input and the same standard output run alike.
\<close>

lemma script_cong:
  "try_imports w' = try_imports w \<Longrightarrow> json_load w' = json_load w \<Longrightarrow> stdin w' = stdin w \<Longrightarrow>
   stdout_write w' = stdout_write w \<Longrightarrow> script w' = script w"
  by (simp add: script_def main_cong [of w' w] py_print_cong [of w' w] split: sum.splits)

lemma hook_cong:
  "try_imports w' = try_imports w \<Longrightarrow> json_load w' = json_load w \<Longrightarrow> stdin w' = stdin w \<Longrightarrow>
   stdout_write w' = stdout_write w \<Longrightarrow> flush_fails w' = flush_fails w \<Longrightarrow>
   hook w' = hook w"
  by (simp add: hook_def shutdown_def script_cong [of w' w] cong: ending.case_cong)

subsection \<open>The sample worlds\<close>

lemma sample_fields:
  "environ (sample_world root input imp1 imp2) ''CLAUDE_PLUGIN_ROOT'' = root"
  "stdin (sample_world root input imp1 imp2) = input"
  "json_load (sample_world root input imp1 imp2) = sample_json_load"
  "sys_path (sample_world root input imp1 imp2) = [''/usr/lib/python3'']"
  "import_load_rules (sample_world root input imp1 imp2) = imp1"
  "import_RuleEngine (sample_world root input imp1 imp2) = imp2"
  "stdout_write (sample_world root input imp1 imp2) = (\<lambda>written t. (t, None))"
  "flush_fails (sample_world root input imp1 imp2) = (\<lambda>written. False)"
  by (simp_all add: sample_world_def)

lemma sample_stdout_works: "stdout_works (sample_world root input imp1 imp2)"
  by (simp add: stdout_works_def sample_fields)

lemma sample_fallback:
  "dirname (sample_world root input imp1 imp2)
     (dirname (sample_world root input imp1 imp2)
        (abspath (sample_world root input imp1 imp2)
           (script_file (sample_world root input imp1 imp2)))) = ''/opt/hookify''"
  by (simp add: sample_world_def posix_abspath_def posix_normpath_def posix_dirname_def)

lemma sample_root_unset: "PLUGIN_ROOT (sample_world None input imp1 imp2) = ''/opt/hookify''"
  by (simp add: PLUGIN_ROOT_def sample_fields sample_fallback)

lemma sample_root_empty: "PLUGIN_ROOT (sample_world (Some []) input imp1 imp2) = ''/opt/hookify''"
  by (simp add: PLUGIN_ROOT_def sample_fields sample_fallback)

lemma sample_root_set:
  "v \<noteq> [] \<Longrightarrow> PLUGIN_ROOT (sample_world (Some v) input imp1 imp2) = v"
  by (simp add: PLUGIN_ROOT_def sample_fields)

lemma sample_imports_found:
  "try_imports (sample_world None input (sample_import a) (sample_import b)) = Inr (a, b)"
  by (simp add: try_imports_def sys_path_after_def sample_root_unset sample_fields sample_import_def)

lemma sample_imports_missing:
  "try_imports (sample_world (Some ''/nowhere'') input (sample_import a) (sample_import b)) =
     Inl (PyExc ImportError_class (ustr ''No module named core''))"
  by (simp add: try_imports_def sys_path_after_def sample_root_set sample_fields sample_import_def)

lemma sample_hello:
  \<open>sample_json_load ''{"prompt": "hello"}'' =
     Inr (PyDict [(PyStr (ustr ''prompt''), PyStr (ustr ''hello''))])\<close>
  by (simp add: sample_json_load_def)

lemma dumps_blocked:
  \<open>json_dumps (PyDict [(PyStr (ustr ''systemMessage''),
      PyStr (ustr ''blocked: dangerous command''))]) =
      Inr ''{"systemMessage": "blocked: dangerous command"}''\<close>
  by code_simp

lemma sample_try_block:
  \<open>try_block (sample_world root ''{"prompt": "hello"}'' imp1 imp2)
      sample_load_rules (Inr blocking_engine) run0 =
     (None, (called (Call_evaluate_rules [ustr ''prompt'']
          (PyDict [(PyStr (ustr ''prompt''), PyStr (ustr ''hello''))]))
        (called Call_RuleEngine (called (Call_load_rules (ustr ''prompt'')) run0)))
          \<lparr>stdout := ''{"systemMessage": "blocked: dangerous command"}'' @ [CHR 0x0A]\<rparr>)\<close>
  using try_block_prints [of \<open>sample_world root ''{"prompt": "hello"}'' imp1 imp2\<close>
      "PyDict [(PyStr (ustr ''prompt''), PyStr (ustr ''hello''))]"
      sample_load_rules "[ustr ''prompt'']" blocking_engine
      "PyDict [(PyStr (ustr ''systemMessage''), PyStr (ustr ''blocked: dangerous command''))]"
      \<open>''{"systemMessage": "blocked: dangerous command"}''\<close> run0]
  by (simp add: sample_stdout_works sample_fields sample_hello sample_load_rules_def
      blocking_engine_def dumps_blocked stdout_run0 del: json_dumps.simps)

lemma sample_not_json:
  "sample_json_load ''not-json'' = Inl (ustr ''Expecting value: line 1 column 1 (char 0)'')"
  by (simp add: sample_json_load_def)

text \<open>A broken pipe changes nothing before the first write.\<close>

lemma try_imports_unbuffered: "try_imports (unbuffered_broken_pipe w) = try_imports w"
  by (simp add: unbuffered_broken_pipe_def try_imports_def sys_path_after_def PLUGIN_ROOT_def
      cong: option.case_cong if_cong sum.case_cong)

lemma try_imports_buffered: "try_imports (buffered_broken_pipe w) = try_imports w"
  by (simp add: buffered_broken_pipe_def try_imports_def sys_path_after_def PLUGIN_ROOT_def
      cong: option.case_cong if_cong sum.case_cong)

lemma script_buffered: "script (buffered_broken_pipe w) = script w"
  by (rule script_cong) (simp_all add: try_imports_buffered, simp_all add: buffered_broken_pipe_def)

lemma unbuffered_flush:
  "flush_fails (unbuffered_broken_pipe w) = flush_fails w"
  by (simp add: unbuffered_broken_pipe_def)

subsection \<open>The environment\<close>

text \<open>
  The environment is read once, for the plugin root; the root goes into the search path
  and nowhere else.
\<close>

lemma sys_path_after_environ:
  "PLUGIN_ROOT (w\<lparr>environ := env\<rparr>) = PLUGIN_ROOT w \<Longrightarrow>
   sys_path_after (w\<lparr>environ := env\<rparr>) = sys_path_after w"
  by (simp add: sys_path_after_def)

lemma try_imports_environ:
  "PLUGIN_ROOT (w\<lparr>environ := env\<rparr>) = PLUGIN_ROOT w \<Longrightarrow>
   try_imports (w\<lparr>environ := env\<rparr>) = try_imports w"
  by (simp add: try_imports_def sys_path_after_environ cong: sum.case_cong)

section \<open>The claims\<close>

text \<open>
  Throughout, \<open>fst (hook w)\<close> is how the process ends and \<open>snd (hook w)\<close> is what it
  did. \<open>Exit 0\<close> says both that the status is 0 and that no exception left the script.
  A claim that says what the process writes is a claim about a standard output that can
  be written to; there it is stated under \<open>stdout_works\<close>.
\<close>

subsection \<open>C1: how the process ends\<close>

text \<open>
  C1 says that every execution ends with status 0 and lets no exception out. The handler
  around the imports is \<^verbatim>\<open>except ImportError\<close>: an exception of another class
  raised while a module is imported (a syntax error in it, an error in its own top-level
  code) is not caught there and leaves the script, before \<^verbatim>\<open>main\<close> and its
  \<^verbatim>\<open>finally\<close> are reached.
\<close>

theorem uncaught_import_counterexample:
  \<open>fst (hook (sample_world None ''{"prompt": "hello"}''
      (\<lambda>path. Inl (PyExc Exception_class (ustr ''invalid syntax'')))
      (sample_import (Inr blocking_engine)))) =
     Uncaught (PyExc Exception_class (ustr ''invalid syntax''))
   \<and> fst (hook (sample_world None ''{"prompt": "hello"}''
      (\<lambda>path. Inl (PyExc Exception_class (ustr ''invalid syntax'')))
      (sample_import (Inr blocking_engine)))) \<noteq> Exit 0\<close>
  by (simp add: fst_hook_uncaught script_import_uncaught try_imports_def sample_fields
      isinstance_ImportError_def top_level_def)

text \<open>
  Nor does the status stay 0 when the standard output fails. The \<^verbatim>\<open>print\<close> in the
  handler of \<^verbatim>\<open>ImportError\<close> stands outside every \<^verbatim>\<open>try\<close>: on an unbuffered pipe
  whose reader is gone it raises, and the exception leaves the script. And whatever
  status the script asks for, a flush that fails at shutdown turns it into 120: on a
  buffered pipe whose reader is gone, \<^verbatim>\<open>main\<close> runs to its \<^verbatim>\<open>sys.exit(0)\<close> and the
  process ends with status 120.
\<close>

lemma import_handler_print_raises:
  "fst (hook (unbuffered_broken_pipe (sample_world (Some ''/nowhere'') ''not-json''
      (sample_import sample_load_rules) (sample_import (Inr blocking_engine))))) =
     Uncaught BrokenPipeError"
proof -
  let ?w = "unbuffered_broken_pipe (sample_world (Some ''/nowhere'') ''not-json''
      (sample_import sample_load_rules) (sample_import (Inr blocking_engine)))"
  have imp: "try_imports ?w = Inl (PyExc ImportError_class (ustr ''No module named core''))"
    by (simp add: try_imports_unbuffered sample_imports_missing)
  have "py_print ?w ''{}'' run0 = (Some BrokenPipeError, run0)"
    by (simp add: py_print_def sys_stdout_write_def unbuffered_broken_pipe_def run0_def)
  then have "fst (script ?w) = BrokenPipeError"
    by (simp add: script_import_error [OF imp] isinstance_ImportError_def)
  then show ?thesis
    by (simp add: fst_hook_uncaught top_level_def BrokenPipeError_def)
qed

lemma flush_failure_status_120:
  \<open>fst (hook (buffered_broken_pipe (sample_world None ''{"prompt": "hello"}''
      (sample_import sample_load_rules) (sample_import (Inr blocking_engine))))) = Exit 120\<close>
proof -
  let ?v = \<open>sample_world None ''{"prompt": "hello"}''
      (sample_import sample_load_rules) (sample_import (Inr blocking_engine))\<close>
  have imp: "try_imports ?v = Inr (sample_load_rules, Inr blocking_engine)"
    by (rule sample_imports_found)
  have script: "script (buffered_broken_pipe ?v) = script ?v"
    by (rule script_buffered)
  have exit: "fst (script ?v) = sys_exit 0"
    by (simp add: script_imported [OF imp] fst_main)
  have "stdout (snd (script ?v)) \<noteq> []"
    by (simp add: script_imported [OF imp] main_completed [OF sample_try_block])
  then have "flush_fails (buffered_broken_pipe ?v) (stdout (snd (script ?v)))"
    by (simp add: buffered_broken_pipe_def)
  with exit script show ?thesis
    by (simp add: fst_hook_sys_exit [of _ 0])
qed

text \<open>
  C1, amended: when each import either succeeds or raises \<^verbatim>\<open>ImportError\<close>, the
  \<^verbatim>\<open>print\<close> in the handler of \<^verbatim>\<open>ImportError\<close> does not raise, and the flush of the
  standard streams at shutdown succeeds, the process ends with status 0 and no exception
  leaves it, whatever the standard input holds and whatever the reader,
  \<^verbatim>\<open>load_rules\<close>, the constructor, \<^verbatim>\<open>evaluate_rules\<close>, the writer or the two calls
  of \<^verbatim>\<open>print\<close> in \<^verbatim>\<open>main\<close> raise, exceptions outside \<^verbatim>\<open>Exception\<close> included.
\<close>

theorem hook_exits_0:
  "(\<forall>e. try_imports w = Inl e \<longrightarrow>
      isinstance_ImportError e \<and> fst (py_print w ''{}'' run0) = None) \<Longrightarrow>
   \<not> flush_fails w (stdout (snd (hook w))) \<Longrightarrow>
   fst (hook w) = Exit 0"
proof -
  assume imps: "\<forall>e. try_imports w = Inl e \<longrightarrow>
      isinstance_ImportError e \<and> fst (py_print w ''{}'' run0) = None"
    and "\<not> flush_fails w (stdout (snd (hook w)))"
  then have flush: "\<not> flush_fails w (stdout (snd (script w)))"
    by (simp add: snd_hook)
  have "fst (script w) = sys_exit 0"
  proof (cases "try_imports w")
    case (Inl e)
    with imps have "isinstance_ImportError e" and "fst (py_print w ''{}'' run0) = None"
      by simp_all
    with Inl show ?thesis
      by (cases "py_print w ''{}'' run0") (simp add: script_import_error)
  next
    case (Inr imp)
    then show ?thesis by (simp add: script_imported fst_main)
  qed
  with flush show ?thesis by (simp add: fst_hook_sys_exit [of w 0])
qed

text \<open>
  Two runs: one in which the library is not found, and one on the unbuffered pipe whose
  reader is gone, where the imports succeed and both calls of \<^verbatim>\<open>print\<close> in
  \<^verbatim>\<open>main\<close> raise, the first in the \<^verbatim>\<open>try\<close> block and the second in the handler.
\<close>

theorem hook_exits_0_witness:
  \<open>fst (hook (sample_world (Some ''/nowhere'') ''{"prompt": "hello"}''
      (sample_import sample_load_rules) (sample_import (Inr blocking_engine)))) = Exit 0
   \<and> fst (hook (unbuffered_broken_pipe (sample_world None ''{"prompt": "hello"}''
      (sample_import sample_load_rules) (sample_import (Inr blocking_engine))))) = Exit 0\<close>
  using hook_exits_0 [of \<open>sample_world (Some ''/nowhere'') ''{"prompt": "hello"}''
      (sample_import sample_load_rules) (sample_import (Inr blocking_engine))\<close>]
    hook_exits_0 [of \<open>unbuffered_broken_pipe (sample_world None ''{"prompt": "hello"}''
      (sample_import sample_load_rules) (sample_import (Inr blocking_engine)))\<close>]
  by (simp add: sample_imports_missing try_imports_unbuffered sample_imports_found
      isinstance_ImportError_def py_print_works [OF sample_stdout_works]
      flush_works [OF sample_stdout_works] unbuffered_flush)

subsection \<open>C2: the result is passed through\<close>



subsection \<open>C3: a failing import\<close>

text \<open>
  C3 says that whenever importing the library fails, the process writes exactly
  \<^verbatim>\<open>{}\<close> and ends with status 0. The handler around the imports is
  \<^verbatim>\<open>except ImportError\<close>. An import also fails when the module is found and cannot be
  loaded for another reason, a \<^verbatim>\<open>SyntaxError\<close> in \<^verbatim>\<open>core/rule_engine.py\<close> say:
  then the second import raises an exception that the handler does not catch, nothing is
  written, and the exception leaves the script. The standard output of this run works.
\<close>

theorem failed_import_no_output_counterexample:
  "try_imports (sample_world None ''not-json'' (sample_import sample_load_rules)
      (\<lambda>path. Inl (PyExc Exception_class (ustr ''invalid syntax (rule_engine.py, line 1)'')))) =
     Inl (PyExc Exception_class (ustr ''invalid syntax (rule_engine.py, line 1)''))
   \<and> stdout (snd (hook (sample_world None ''not-json'' (sample_import sample_load_rules)
      (\<lambda>path. Inl (PyExc Exception_class (ustr ''invalid syntax (rule_engine.py, line 1)'')))))) = []
   \<and> stdout (snd (hook (sample_world None ''not-json'' (sample_import sample_load_rules)
      (\<lambda>path. Inl (PyExc Exception_class (ustr ''invalid syntax (rule_engine.py, line 1)'')))))) \<noteq>
       ''{}'' @ [CHR 0x0A]
   \<and> fst (hook (sample_world None ''not-json'' (sample_import sample_load_rules)
      (\<lambda>path. Inl (PyExc Exception_class (ustr ''invalid syntax (rule_engine.py, line 1)''))))) =
       Uncaught (PyExc Exception_class (ustr ''invalid syntax (rule_engine.py, line 1)''))
   \<and> fst (hook (sample_world None ''not-json'' (sample_import sample_load_rules)
      (\<lambda>path. Inl (PyExc Exception_class (ustr ''invalid syntax (rule_engine.py, line 1)''))))) \<noteq>
       Exit 0"
proof -
  let ?e = "PyExc Exception_class (ustr ''invalid syntax (rule_engine.py, line 1)'')"
  let ?w = "sample_world None ''not-json'' (sample_import sample_load_rules) (\<lambda>path. Inl ?e)"
  have imp: "try_imports ?w = Inl ?e"
    by (simp add: try_imports_def sys_path_after_def sample_root_unset sample_fields
        sample_import_def)
  have script: "script ?w = (?e, run0)"
    by (rule script_import_uncaught [OF imp]) (simp add: isinstance_ImportError_def)
  have "fst (hook ?w) = Uncaught ?e"
    by (rule fst_hook_uncaught) (simp add: script top_level_def)
  moreover have "stdout (snd (hook ?w)) = []"
    by (simp add: snd_hook script stdout_run0)
  ultimately show ?thesis using imp by simp
qed

text \<open>
  C3, amended: when one of the two imports raises \<^verbatim>\<open>ImportError\<close> (the module is not
  found, or the name is not in it), on a standard output that works, the standard output
  is exactly \<^verbatim>\<open>{}\<close> (and the line feed of \<^verbatim>\<open>print\<close>) and the status is 0, whatever
  the standard input holds.
\<close>

theorem import_failure_prints_empty:
  "stdout_works w \<Longrightarrow> try_imports w = Inl e \<Longrightarrow> isinstance_ImportError e \<Longrightarrow>
   stdout (snd (hook w)) = ''{}'' @ [CHR 0x0A] \<and> fst (hook w) = Exit 0"
  by (simp add: hook_import_error)

theorem import_failure_prints_empty_witness:
  "stdout (snd (hook (sample_world (Some ''/nowhere'') ''not-json''
      (sample_import sample_load_rules) (sample_import (Inr blocking_engine))))) =
     ''{}'' @ [CHR 0x0A]
   \<and> fst (hook (sample_world (Some ''/nowhere'') ''not-json''
      (sample_import sample_load_rules) (sample_import (Inr blocking_engine)))) = Exit 0"
  by (rule import_failure_prints_empty [OF sample_stdout_works sample_imports_missing])
     (simp add: isinstance_ImportError_def)

subsection \<open>C4: a standard input that is not valid JSON\<close>



subsection \<open>C5: an exception from the rule library\<close>




subsection \<open>C6: the calls to the rule library\<close>

text \<open>
  C6 says that on every run that reaches the delegation step the loader is called once
  with \<^verbatim>\<open>"prompt"\<close> and the evaluator is then called with the returned rule set and
  the parsed input. Between the two the script constructs the engine,
  \<^verbatim>\<open>engine = RuleEngine()\<close>; when the constructor raises, the loader has returned a
  rule set and \<^verbatim>\<open>evaluate_rules\<close> is never called.
\<close>

theorem evaluator_not_called_counterexample:
  \<open>calls (snd (hook (sample_world None ''{"prompt": "hello"}''
      (sample_import sample_load_rules)
      (sample_import (Inl (PyExc Exception_class (ustr ''cannot build engine''))))))) =
     [Call_load_rules (ustr ''prompt''), Call_RuleEngine]
   \<and> \<not> (\<exists>rules input_data. Call_evaluate_rules rules input_data \<in>
        set (calls (snd (hook (sample_world None ''{"prompt": "hello"}''
          (sample_import sample_load_rules)
          (sample_import (Inl (PyExc Exception_class (ustr ''cannot build engine'')))))))))\<close>
proof -
  have \<open>calls (snd (hook (sample_world None ''{"prompt": "hello"}''
      (sample_import sample_load_rules)
      (sample_import (Inl (PyExc Exception_class (ustr ''cannot build engine''))))))) =
     [Call_load_rules (ustr ''prompt''), Call_RuleEngine]\<close>
    by (simp add: snd_hook script_imported [OF sample_imports_found] main_def
        finally_block_def except_block_calls try_block_def sample_fields sample_hello
        sample_load_rules_def calls_called calls_run0)
  then show ?thesis by simp
qed

text \<open>
  C6, amended: on every run that reaches the delegation step (the imports succeeded and
  the standard input parsed), the first call is \<^verbatim>\<open>load_rules\<close> with the event
  \<^verbatim>\<open>"prompt"\<close>, and it is the only call to the loader; when it returns a rule set,
  \<^verbatim>\<open>RuleEngine()\<close> is called next, and when that returns an engine,
  \<^verbatim>\<open>evaluate_rules\<close> is called last, once, with that rule set and the parsed input.
  When the loader or the constructor raises, nothing further is called.
\<close>

theorem delegation_calls:
  "try_imports w = Inr (load_rules, cls) \<Longrightarrow> json_load w (stdin w) = Inr input_data \<Longrightarrow>
   calls (snd (hook w)) =
     (case load_rules (ustr ''prompt'') of
        Inl e \<Rightarrow> [Call_load_rules (ustr ''prompt'')]
      | Inr rules \<Rightarrow>
          (case cls of
             Inl e \<Rightarrow> [Call_load_rules (ustr ''prompt''), Call_RuleEngine]
           | Inr engine \<Rightarrow>
               [Call_load_rules (ustr ''prompt''), Call_RuleEngine,
                Call_evaluate_rules rules input_data]))"
  by (simp add: snd_hook script_imported main_def finally_block_def except_block_calls)
     (simp add: try_block_def Let_def calls_called calls_py_print calls_run0
        split: sum.splits)

theorem delegation_calls_witness:
  \<open>calls (snd (hook (sample_world None ''{"prompt": "hello"}''
      (sample_import sample_load_rules) (sample_import (Inr blocking_engine))))) =
     [Call_load_rules (ustr ''prompt''), Call_RuleEngine,
      Call_evaluate_rules [ustr ''prompt'']
        (PyDict [(PyStr (ustr ''prompt''), PyStr (ustr ''hello''))])]\<close>
  using delegation_calls [OF sample_imports_found,
      of \<open>''{"prompt": "hello"}''\<close> sample_load_rules "Inr blocking_engine"
      "PyDict [(PyStr (ustr ''prompt''), PyStr (ustr ''hello''))]"]
  by (simp add: sample_fields sample_hello sample_load_rules_def)

subsection \<open>C7: the plugin root\<close>

text \<open>
  C7 says that the plugin root is the value of \<^verbatim>\<open>CLAUDE_PLUGIN_ROOT\<close> when the
  variable is set. The script tests \<^verbatim>\<open>if not PLUGIN_ROOT\<close>, which is also true of the
  empty string: a variable set to the empty string is not used.
\<close>

theorem empty_root_counterexample:
  \<open>environ (sample_world (Some []) ''{"prompt": "hello"}''
      (sample_import sample_load_rules) (sample_import (Inr blocking_engine)))
     ''CLAUDE_PLUGIN_ROOT'' = Some []
   \<and> PLUGIN_ROOT (sample_world (Some []) ''{"prompt": "hello"}''
      (sample_import sample_load_rules) (sample_import (Inr blocking_engine))) = ''/opt/hookify''
   \<and> PLUGIN_ROOT (sample_world (Some []) ''{"prompt": "hello"}''
      (sample_import sample_load_rules) (sample_import (Inr blocking_engine))) \<noteq> []\<close>
  by (simp add: sample_fields sample_root_empty)

text \<open>
  C7, amended: the plugin root is the value of \<^verbatim>\<open>CLAUDE_PLUGIN_ROOT\<close> when the
  variable is set to a non-empty string; when the variable is absent, it is the directory
  two levels up from the script's absolute path,
  \<^verbatim>\<open>dirname(dirname(abspath(__file__)))\<close>.
\<close>

theorem plugin_root_cases:
  "(environ w ''CLAUDE_PLUGIN_ROOT'' = Some v \<and> v \<noteq> [] \<longrightarrow> PLUGIN_ROOT w = v)
   \<and> (environ w ''CLAUDE_PLUGIN_ROOT'' = None \<longrightarrow>
        PLUGIN_ROOT w = dirname w (dirname w (abspath w (script_file w))))"
  by (simp add: PLUGIN_ROOT_def)

theorem plugin_root_cases_witness:
  \<open>PLUGIN_ROOT (sample_world (Some ''/srv/hookify'') ''{"prompt": "hello"}''
      (sample_import sample_load_rules) (sample_import (Inr blocking_engine))) = ''/srv/hookify''
   \<and> PLUGIN_ROOT (sample_world None ''{"prompt": "hello"}''
      (sample_import sample_load_rules) (sample_import (Inr blocking_engine))) = ''/opt/hookify''\<close>
  using plugin_root_cases [of \<open>sample_world (Some ''/srv/hookify'') ''{"prompt": "hello"}''
      (sample_import sample_load_rules) (sample_import (Inr blocking_engine))\<close> "''/srv/hookify''"]
    plugin_root_cases [of \<open>sample_world None ''{"prompt": "hello"}''
      (sample_import sample_load_rules) (sample_import (Inr blocking_engine))\<close> "[]"]
  by (simp add: sample_fields sample_fallback)

subsection \<open>C8: the override changes module resolution only\<close>

text \<open>
  C8: take two runs that differ only in the value of \<^verbatim>\<open>CLAUDE_PLUGIN_ROOT\<close> (set to
  another value, or unset), in both of which the imports succeed and yield the same
  \<^verbatim>\<open>load_rules\<close> and \<^verbatim>\<open>RuleEngine\<close>. Then the standard output is the same in both;
  indeed the whole run is.
\<close>

theorem plugin_root_only_resolves_modules:
  "try_imports w = Inr imp \<Longrightarrow>
   try_imports (w\<lparr>environ := (environ w)(''CLAUDE_PLUGIN_ROOT'' := root)\<rparr>) = Inr imp \<Longrightarrow>
   stdout (snd (hook (w\<lparr>environ := (environ w)(''CLAUDE_PLUGIN_ROOT'' := root)\<rparr>))) =
     stdout (snd (hook w))
   \<and> hook (w\<lparr>environ := (environ w)(''CLAUDE_PLUGIN_ROOT'' := root)\<rparr>) = hook w"
proof -
  assume "try_imports w = Inr imp"
    and "try_imports (w\<lparr>environ := (environ w)(''CLAUDE_PLUGIN_ROOT'' := root)\<rparr>) = Inr imp"
  then have "hook (w\<lparr>environ := (environ w)(''CLAUDE_PLUGIN_ROOT'' := root)\<rparr>) = hook w"
    by (intro hook_cong) simp_all
  then show ?thesis by simp
qed

text \<open>
  In the sample world the library is installed under both roots: with the variable unset
  the imports go through \<^verbatim>\<open>/opt/hookify\<close>, with the override through
  \<^verbatim>\<open>/srv/hookify\<close>. The search paths differ, the output does not.
\<close>

theorem plugin_root_only_resolves_modules_witness:
  \<open>stdout (snd (hook ((sample_world None ''{"prompt": "hello"}''
        (sample_import sample_load_rules) (sample_import (Inr blocking_engine)))
      \<lparr>environ := (environ (sample_world None ''{"prompt": "hello"}''
        (sample_import sample_load_rules) (sample_import (Inr blocking_engine))))
          (''CLAUDE_PLUGIN_ROOT'' := Some ''/srv/hookify'')\<rparr>))) =
   stdout (snd (hook (sample_world None ''{"prompt": "hello"}''
        (sample_import sample_load_rules) (sample_import (Inr blocking_engine)))))
   \<and> sys_path_after ((sample_world None ''{"prompt": "hello"}''
        (sample_import sample_load_rules) (sample_import (Inr blocking_engine)))
      \<lparr>environ := (environ (sample_world None ''{"prompt": "hello"}''
        (sample_import sample_load_rules) (sample_import (Inr blocking_engine))))
          (''CLAUDE_PLUGIN_ROOT'' := Some ''/srv/hookify'')\<rparr>) \<noteq>
     sys_path_after (sample_world None ''{"prompt": "hello"}''
        (sample_import sample_load_rules) (sample_import (Inr blocking_engine)))\<close>
proof -
  let ?w = \<open>sample_world None ''{"prompt": "hello"}''
        (sample_import sample_load_rules) (sample_import (Inr blocking_engine))\<close>
  let ?w' = "?w\<lparr>environ := (environ ?w)(''CLAUDE_PLUGIN_ROOT'' := Some ''/srv/hookify'')\<rparr>"
  have root': "PLUGIN_ROOT ?w' = ''/srv/hookify''"
    by (simp add: PLUGIN_ROOT_def)
  have path': "sys_path_after ?w' = [''/srv/hookify'', ''/usr/lib/python3'']"
    by (simp add: sys_path_after_def root' sample_fields)
  have path: "sys_path_after ?w = [''/opt/hookify'', ''/usr/lib/python3'']"
    by (simp add: sys_path_after_def sample_root_unset sample_fields)
  have imp': "try_imports ?w' = Inr (sample_load_rules, Inr blocking_engine)"
    by (simp add: try_imports_def path' sample_fields sample_import_def)
  from plugin_root_only_resolves_modules [OF sample_imports_found imp']
  show ?thesis by (simp add: path path')
qed

subsection \<open>C9: the prefix of the error message\<close>

text \<open>
  C9: on the runtime-error path, that is when the \<^verbatim>\<open>try\<close> block of \<^verbatim>\<open>main\<close> raises
  an exception that \<^verbatim>\<open>except Exception\<close> catches, the value printed under
  \<^verbatim>\<open>systemMessage\<close> is the fixed prefix \<^verbatim>\<open>Hookify error: \<close> followed by the
  exception's \<^verbatim>\<open>str\<close>; the output is never the object that holds the bare text. The
  standard output is one that works.
\<close>

theorem error_message_prefix:
  "stdout_works w \<Longrightarrow>
   try_imports w = Inr imp \<Longrightarrow> fst (try_block w (fst imp) (snd imp) run0) = Some e \<Longrightarrow>
   isinstance_Exception e \<Longrightarrow>
   (\<exists>doc. json_dumps (PyDict [(PyStr (ustr ''systemMessage''),
             PyStr (ustr ''Hookify error: '' @ exc_str e))]) = Inr doc
      \<and> stdout (snd (hook w)) = doc @ [CHR 0x0A])
   \<and> (\<forall>bare. json_dumps (PyDict [(PyStr (ustr ''systemMessage''), PyStr (exc_str e))]) = Inr bare
        \<longrightarrow> stdout (snd (hook w)) \<noteq> bare @ [CHR 0x0A])"
proof -
  assume works: "stdout_works w"
    and imp: "try_imports w = Inr imp"
    and raised: "fst (try_block w (fst imp) (snd imp) run0) = Some e"
    and exc: "isinstance_Exception e"
  obtain r' where tb: "try_block w (fst imp) (snd imp) run0 = (Some e, r')"
    using raised by (cases "try_block w (fst imp) (snd imp) run0") simp
  from try_block_raised_stdout [OF works raised] tb have quiet: "stdout r' = []"
    by (simp add: stdout_run0)
  from imp works have out: \<open>stdout (snd (hook w)) =
      ''{"systemMessage": "Hookify error: '' @ escape_str (exc_str e) @ ''"}'' @ [CHR 0x0A]\<close>
    by (simp add: hook_imported main_caught [OF tb exc] py_print_works quiet)
  have doc: \<open>json_dumps (PyDict [(PyStr (ustr ''systemMessage''),
      PyStr (ustr ''Hookify error: '' @ exc_str e))]) =
      Inr (''{"systemMessage": "Hookify error: '' @ escape_str (exc_str e) @ ''"}'')\<close>
    using dumps_error_output [of e] by (simp only: error_output_def)
  have differ: \<open>''{"systemMessage": "Hookify error: '' @ escape_str (exc_str e) @ ''"}'' \<noteq>
      ''{"systemMessage": "'' @ escape_str (exc_str e) @ ''"}''\<close>
  proof
    assume \<open>''{"systemMessage": "Hookify error: '' @ escape_str (exc_str e) @ ''"}'' =
      ''{"systemMessage": "'' @ escape_str (exc_str e) @ ''"}''\<close>
    then have \<open>length (''{"systemMessage": "Hookify error: '' @ escape_str (exc_str e) @ ''"}'') =
      length (''{"systemMessage": "'' @ escape_str (exc_str e) @ ''"}'')\<close>
      by (rule arg_cong)
    then show False by simp
  qed
  from out doc differ show ?thesis
    by (simp only: dumps_system_message) simp
qed

theorem error_message_prefix_witness:
  \<open>stdout (snd (hook (sample_world None ''not-json''
      (sample_import sample_load_rules) (sample_import (Inr blocking_engine))))) =
     ''{"systemMessage": "Hookify error: Expecting value: line 1 column 1 (char 0)"}''
       @ [CHR 0x0A]\<close>
proof -
  let ?e = "PyExc Exception_class (ustr ''Expecting value: line 1 column 1 (char 0)'')"
  have doc: \<open>json_dumps (PyDict [(PyStr (ustr ''systemMessage''),
      PyStr (ustr ''Hookify error: '' @ exc_str ?e))]) =
      Inr ''{"systemMessage": "Hookify error: Expecting value: line 1 column 1 (char 0)"}''\<close>
    by code_simp
  have raised: "fst (try_block (sample_world None ''not-json''
      (sample_import sample_load_rules) (sample_import (Inr blocking_engine)))
      (fst (sample_load_rules, Inr blocking_engine))
      (snd (sample_load_rules, Inr blocking_engine)) run0) = Some ?e"
    by (simp add: try_block_bad_json sample_fields sample_not_json)
  have exc: "isinstance_Exception ?e" by (simp add: isinstance_Exception_def)
  from error_message_prefix [OF sample_stdout_works sample_imports_found raised exc] doc
  show ?thesis by (simp del: json_dumps.simps)
qed

subsection \<open>C10: an empty override\<close>

text \<open>
  C10: when \<^verbatim>\<open>CLAUDE_PLUGIN_ROOT\<close> is set to the empty string, the plugin root is the
  path derived from the script's location, the same as when the variable is unset; the
  search path and the whole run are the same as with the variable unset.
\<close>

theorem empty_root_as_unset:
  "environ w ''CLAUDE_PLUGIN_ROOT'' = Some [] \<Longrightarrow>
   PLUGIN_ROOT w = dirname w (dirname w (abspath w (script_file w)))
   \<and> PLUGIN_ROOT w = PLUGIN_ROOT (w\<lparr>environ := (environ w)(''CLAUDE_PLUGIN_ROOT'' := None)\<rparr>)
   \<and> sys_path_after w =
       sys_path_after (w\<lparr>environ := (environ w)(''CLAUDE_PLUGIN_ROOT'' := None)\<rparr>)
   \<and> hook w = hook (w\<lparr>environ := (environ w)(''CLAUDE_PLUGIN_ROOT'' := None)\<rparr>)"
proof -
  assume empty: "environ w ''CLAUDE_PLUGIN_ROOT'' = Some []"
  let ?w' = "w\<lparr>environ := (environ w)(''CLAUDE_PLUGIN_ROOT'' := None)\<rparr>"
  from empty have fallback: "PLUGIN_ROOT w = dirname w (dirname w (abspath w (script_file w)))"
    by (simp add: PLUGIN_ROOT_def)
  have unset: "PLUGIN_ROOT ?w' = dirname w (dirname w (abspath w (script_file w)))"
    by (simp add: PLUGIN_ROOT_def)
  from fallback unset have same: "PLUGIN_ROOT ?w' = PLUGIN_ROOT w" by simp
  then have path: "sys_path_after ?w' = sys_path_after w"
    by (rule sys_path_after_environ)
  from same have "try_imports ?w' = try_imports w" by (rule try_imports_environ)
  then have "hook ?w' = hook w" by (intro hook_cong) simp_all
  with fallback same path show ?thesis by simp
qed

theorem empty_root_as_unset_witness:
  \<open>PLUGIN_ROOT (sample_world (Some []) ''{"prompt": "hello"}''
      (sample_import sample_load_rules) (sample_import (Inr blocking_engine))) = ''/opt/hookify''
   \<and> hook (sample_world (Some []) ''{"prompt": "hello"}''
      (sample_import sample_load_rules) (sample_import (Inr blocking_engine))) =
     hook ((sample_world (Some []) ''{"prompt": "hello"}''
      (sample_import sample_load_rules) (sample_import (Inr blocking_engine)))
        \<lparr>environ := (environ (sample_world (Some []) ''{"prompt": "hello"}''
      (sample_import sample_load_rules) (sample_import (Inr blocking_engine))))
          (''CLAUDE_PLUGIN_ROOT'' := None)\<rparr>)\<close>
  using empty_root_as_unset [of \<open>sample_world (Some []) ''{"prompt": "hello"}''
      (sample_import sample_load_rules) (sample_import (Inr blocking_engine))\<close>]
  by (simp add: sample_fields sample_fallback)

end
